theory Spec2Isabelle
  imports Complex_Main
begin

section \<open>The analysis session of the App component\<close>

text \<open>
  The App component keeps its session in React state cells and changes them only through
  their setters. The model keeps one record with a field per cell and applies the setters
  in the order the source calls them; a functional update \<open>setX(prev => f prev)\<close> reads
  the value the preceding setters left.

  The two analysis functions are imported from the service module, so the handler takes
  them as parameters. A rejected promise is \<open>Inl\<close> of the thrown value, a resolved one is
  \<open>Inr\<close> of the result. The handler returns the session it leaves behind together with the
  log of the service calls it issued, in order.
\<close>

datatype Language = VN | EN | KR

text \<open>A thrown value: an \<open>Error\<close> instance with its message, or any other value.\<close>

datatype thrown = Error string | NonError

text \<open>
  A browser \<open>File\<close>: its name, its MIME type, and what \<open>FileReader.readAsDataURL\<close>
  delivers for it (\<open>None\<close> when the reader fires \<open>onerror\<close>).
\<close>

record media_file =
  file_name :: string
  file_type :: string
  data_url :: "string option"

text \<open>
  The result of stage 2 is a \<open>Partial<AnalysisResult>\<close>: every key may be absent. The
  handler reads only \<open>sources\<close>; the remaining keys are carried in \<open>others\<close>.
\<close>

record 'r insights =
  sources :: "string list option"
  others :: 'r

record ('p, 'r) session =
  input :: string
  "file" :: "media_file option"
  language :: Language
  profileData :: "'p option"
  insightsData :: "'r insights option"
  allSources :: "string list"
  isAnalyzingProfile :: bool
  isAnalyzingInsights :: bool
  error :: "string option"

datatype 'p call =
    ProfileCall string "media_file option" Language
  | InsightsCall string "media_file option" 'p Language

record ('p, 'r) services =
  analyzeProductProfile ::
    "string \<Rightarrow> media_file option \<Rightarrow> Language \<Rightarrow> thrown + ('p \<times> string list)"
  analyzeProductInsights ::
    "string \<Rightarrow> media_file option \<Rightarrow> 'p \<Rightarrow> Language \<Rightarrow> thrown + 'r insights"

text \<open>The state the component mounts with (the \<open>useState\<close> initial values).\<close>

definition initial :: "('p, 'r) session" where
  "initial =
     \<lparr> input = [], file = None, language = VN, profileData = None, insightsData = None,
       allSources = [], isAnalyzingProfile = False, isAnalyzingInsights = False,
       error = None \<rparr>"

text \<open>
  \<open>Array.from(new Set(xs))\<close>: the elements of \<open>xs\<close> in the order of their first
  occurrence, where \<open>same\<close> is the comparison the set applies to two elements (equality
  for strings). \<open>fromSet same seen xs\<close> is the insertion loop with \<open>seen\<close> already in
  the set.
\<close>

fun fromSet :: "('a \<Rightarrow> 'a \<Rightarrow> bool) \<Rightarrow> 'a list \<Rightarrow> 'a list \<Rightarrow> 'a list" where
  "fromSet same seen [] = seen"
| "fromSet same seen (x # xs) =
     (if list_ex (same x) seen then fromSet same seen xs else fromSet same (seen @ [x]) xs)"

definition arrayFromSet :: "('a \<Rightarrow> 'a \<Rightarrow> bool) \<Rightarrow> 'a list \<Rightarrow> 'a list" where
  "arrayFromSet same xs = fromSet same [] xs"

text \<open>\<open>err instanceof Error ? err.message : "An unknown error occurred"\<close>\<close>

fun errorMessage :: "thrown \<Rightarrow> string" where
  "errorMessage (Error m) = m"
| "errorMessage NonError = ''An unknown error occurred''"

text \<open>The \<open>finally\<close> block of \<open>handleAnalyze\<close>.\<close>

definition finallyBlock :: "('p, 'r) session \<Rightarrow> ('p, 'r) session" where
  "finallyBlock s = s\<lparr> isAnalyzingProfile := False, isAnalyzingInsights := False \<rparr>"

text \<open>The \<open>catch\<close> block followed by the \<open>finally\<close> block.\<close>

definition catchBlock :: "thrown \<Rightarrow> ('p, 'r) session \<Rightarrow> ('p, 'r) session" where
  "catchBlock err s = finallyBlock (s\<lparr> error := Some (errorMessage err) \<rparr>)"

text \<open>The setters under the comment \<open>Reset State\<close>, before the \<open>try\<close>.\<close>

definition resetState :: "('p, 'r) session \<Rightarrow> ('p, 'r) session" where
  "resetState s =
     s\<lparr> isAnalyzingProfile := True, isAnalyzingInsights := False, error := None,
        profileData := None, insightsData := None, allSources := [] \<rparr>"

text \<open>The setters between the two awaits, after stage 1 has resolved.\<close>

definition profileDone :: "'p \<Rightarrow> string list \<Rightarrow> ('p, 'r) session \<Rightarrow> ('p, 'r) session" where
  "profileDone profile profileSources s =
     s\<lparr> profileData := Some profile, allSources := allSources s @ profileSources,
        isAnalyzingProfile := False, isAnalyzingInsights := True \<rparr>"

text \<open>The setters after stage 2 has resolved.\<close>

definition insightsDone :: "'r insights \<Rightarrow> ('p, 'r) session \<Rightarrow> ('p, 'r) session" where
  "insightsDone ins s =
     (let s1 = s\<lparr> insightsData := Some ins \<rparr>
      in case sources ins of
           None \<Rightarrow> s1
         | Some srcs \<Rightarrow> s1\<lparr> allSources := arrayFromSet (=) (allSources s1 @ srcs) \<rparr>)"

definition handleAnalyze ::
  "('p, 'r) services \<Rightarrow> ('p, 'r) session \<Rightarrow> ('p, 'r) session \<times> 'p call list" where
  "handleAnalyze svc s =
     (if input s = [] \<and> file s = None then (s, [])
      else
        let s0 = resetState s;
            call1 = ProfileCall (input s) (file s) (language s)
        in (case analyzeProductProfile svc (input s) (file s) (language s) of
              Inl err \<Rightarrow> (catchBlock err s0, [call1])
            | Inr (profile, profileSources) \<Rightarrow>
                (let s1 = profileDone profile profileSources s0;
                     call2 = InsightsCall (input s) (file s) profile (language s)
                 in (case analyzeProductInsights svc (input s) (file s) profile (language s) of
                       Inl err \<Rightarrow> (catchBlock err s1, [call1, call2])
                     | Inr ins \<Rightarrow> (finallyBlock (insightsDone ins s1), [call1, call2])))))"

definition handleReset :: "('p, 'r) session \<Rightarrow> ('p, 'r) session" where
  "handleReset s =
     s\<lparr> profileData := None, insightsData := None, input := [], file := None,
        allSources := [] \<rparr>"

text \<open>\<open>const isIdle = !profileData && !isAnalyzingProfile\<close>: the input form is shown.\<close>

definition isIdle :: "('p, 'r) session \<Rightarrow> bool" where
  "isIdle s = (profileData s = None \<and> \<not> isAnalyzingProfile s)"

fun isInsightsCall :: "'p call \<Rightarrow> bool" where
  "isInsightsCall (InsightsCall _ _ _ _) = True"
| "isInsightsCall (ProfileCall _ _ _) = False"

text \<open>The outcomes of the two stages for the arguments the handler passes.\<close>

definition stage1 ::
  "('p, 'r) services \<Rightarrow> ('p, 'r) session \<Rightarrow> thrown + ('p \<times> string list)" where
  "stage1 svc s = analyzeProductProfile svc (input s) (file s) (language s)"

definition stage2 ::
  "('p, 'r) services \<Rightarrow> ('p, 'r) session \<Rightarrow> 'p \<Rightarrow> thrown + 'r insights" where
  "stage2 svc s profile = analyzeProductInsights svc (input s) (file s) profile (language s)"

definition hasInput :: "('p, 'r) session \<Rightarrow> bool" where
  "hasInput s = (input s \<noteq> [] \<or> file s \<noteq> None)"

text \<open>Sample sessions and services, used to run the handlers on concrete inputs.\<close>

definition exampleSession :: "(string, unit) session" where
  "exampleSession = initial\<lparr> input := ''Choco Bar 50g'' \<rparr>"

definition profileFails :: "(string, unit) services" where
  "profileFails =
     \<lparr> analyzeProductProfile = (\<lambda>text media lang. Inl (Error ''Failed to analyze profile.'')),
       analyzeProductInsights = (\<lambda>text media profile lang. Inr \<lparr> sources = Some [], others = () \<rparr>) \<rparr>"

definition insightsFail :: "(string, unit) services" where
  "insightsFail =
     \<lparr> analyzeProductProfile = (\<lambda>text media lang. Inr (''Choco Bar'', [''A'', ''B''])),
       analyzeProductInsights =
         (\<lambda>text media profile lang. Inl (Error ''Failed to generate insights.'')) \<rparr>"

definition bothSucceed :: "(string, unit) services" where
  "bothSucceed =
     \<lparr> analyzeProductProfile = (\<lambda>text media lang. Inr (''Choco Bar'', [''A'', ''B''])),
       analyzeProductInsights =
         (\<lambda>text media profile lang. Inr \<lparr> sources = Some [''B'', ''C''], others = () \<rparr>) \<rparr>"

section \<open>The analysis client\<close>

text \<open>
  Strings are lists of 8-bit characters: the model covers texts whose UTF-16 code units
  are below 256.

  A value the service reads with the static type \<open>any\<close>: the parsed JSON text and the
  provider's response object. These are trees of plain data, so every array and object
  node is an allocation of its own. Numbers are rationals (a JSON number is a decimal).
  An object is its list of own properties; the first binding of a key is the one read.
\<close>

datatype jsval =
    JUndefined
  | JNull
  | JBool bool
  | JNum rat
  | JStr string
  | JArr "jsval list"
  | JObj "(string \<times> jsval) list"

fun nullish :: "jsval \<Rightarrow> bool" where
  "nullish JUndefined = True"
| "nullish JNull = True"
| "nullish (JBool b) = False"
| "nullish (JNum q) = False"
| "nullish (JStr s) = False"
| "nullish (JArr xs) = False"
| "nullish (JObj kvs) = False"

text \<open>The conversion to boolean that \<open>if (v)\<close> applies.\<close>

fun truthy :: "jsval \<Rightarrow> bool" where
  "truthy JUndefined = False"
| "truthy JNull = False"
| "truthy (JBool b) = b"
| "truthy (JNum q) = (q \<noteq> 0)"
| "truthy (JStr s) = (s \<noteq> [])"
| "truthy (JArr xs) = True"
| "truthy (JObj kvs) = True"

text \<open>
  \<open>propertyOf v k\<close> is the value of \<open>v.k\<close> for a \<open>v\<close> that is neither null nor undefined
  and a name \<open>k\<close> that is no array index and no built-in member (\<open>length\<close>, \<open>forEach\<close>,
  ...). The names the service reads are \<open>profile\<close>, \<open>candidates\<close>, \<open>groundingMetadata\<close>,
  \<open>groundingChunks\<close>, \<open>web\<close> and \<open>uri\<close>: only an object can own one of them.
\<close>

fun propertyOf :: "jsval \<Rightarrow> string \<Rightarrow> jsval" where
  "propertyOf (JObj kvs) k = (case map_of kvs k of None \<Rightarrow> JUndefined | Some v \<Rightarrow> v)"
| "propertyOf JUndefined k = JUndefined"
| "propertyOf JNull k = JUndefined"
| "propertyOf (JBool b) k = JUndefined"
| "propertyOf (JNum q) k = JUndefined"
| "propertyOf (JStr s) k = JUndefined"
| "propertyOf (JArr xs) k = JUndefined"

text \<open>\<open>elementOf0 v\<close> is the value of \<open>v[0]\<close> for a \<open>v\<close> that is neither null nor undefined.\<close>

fun elementOf0 :: "jsval \<Rightarrow> jsval" where
  "elementOf0 (JArr xs) = (case xs of [] \<Rightarrow> JUndefined | x # rest \<Rightarrow> x)"
| "elementOf0 (JStr s) = (case s of [] \<Rightarrow> JUndefined | c # rest \<Rightarrow> JStr [c])"
| "elementOf0 (JObj kvs) = (case map_of kvs ''0'' of None \<Rightarrow> JUndefined | Some v \<Rightarrow> v)"
| "elementOf0 JUndefined = JUndefined"
| "elementOf0 JNull = JUndefined"
| "elementOf0 (JBool b) = JUndefined"
| "elementOf0 (JNum q) = JUndefined"

text \<open>\<open>v.k\<close>: reading a property of null or undefined throws a TypeError (\<open>None\<close>).\<close>

definition getProp :: "jsval \<Rightarrow> string \<Rightarrow> jsval option" where
  "getProp v k = (if nullish v then None else Some (propertyOf v k))"

text \<open>\<open>v?.k\<close> and \<open>v?.[0]\<close>: undefined when \<open>v\<close> is null or undefined.\<close>

definition optProp :: "jsval \<Rightarrow> string \<Rightarrow> jsval" where
  "optProp v k = (if nullish v then JUndefined else propertyOf v k)"

definition optIndex0 :: "jsval \<Rightarrow> jsval" where
  "optIndex0 v = (if nullish v then JUndefined else elementOf0 v)"

text \<open>
  The comparison a \<open>Set\<close> applies to its elements: primitives by value, arrays and objects
  by identity. Two nodes met at different places of a tree are different allocations.
\<close>

fun sameValueZero :: "jsval \<Rightarrow> jsval \<Rightarrow> bool" where
  "sameValueZero JUndefined JUndefined = True"
| "sameValueZero JNull JNull = True"
| "sameValueZero (JBool a) (JBool b) = (a = b)"
| "sameValueZero (JNum a) (JNum b) = (a = b)"
| "sameValueZero (JStr a) (JStr b) = (a = b)"
| "sameValueZero x y = False"

text \<open>
  The body of \<open>groundingChunks.forEach\<close>, run over the chunks with the array \<open>sources\<close>
  collected so far. \<open>chunk.web\<close> throws on a chunk that is null or undefined.
\<close>

fun collectUris :: "jsval list \<Rightarrow> jsval list \<Rightarrow> jsval list option" where
  "collectUris srcs [] = Some srcs"
| "collectUris srcs (chunk # rest) =
     (case getProp chunk ''web'' of
        None \<Rightarrow> None
      | Some web \<Rightarrow>
          if truthy (optProp web ''uri'')
          then collectUris (srcs @ [optProp web ''uri'']) rest
          else collectUris srcs rest)"

text \<open>\<open>candidates?.[0]?.groundingMetadata?.groundingChunks\<close>, from the value of \<open>candidates\<close>.\<close>

definition groundingChunksOf :: "jsval \<Rightarrow> jsval" where
  "groundingChunksOf candidates =
     optProp (optProp (optIndex0 candidates) ''groundingMetadata'') ''groundingChunks''"

text \<open>
  \<open>extractSources\<close>. Only an array has \<open>forEach\<close>: on any other truthy value the call
  throws a TypeError.
\<close>

definition extractSources :: "jsval \<Rightarrow> jsval list option" where
  "extractSources response =
     (case getProp response ''candidates'' of
        None \<Rightarrow> None
      | Some candidates \<Rightarrow>
          (let groundingChunks = groundingChunksOf candidates
           in if truthy groundingChunks
              then (case groundingChunks of
                      JArr chunks \<Rightarrow> map_option (arrayFromSet sameValueZero) (collectUris [] chunks)
                    | JUndefined \<Rightarrow> None
                    | JNull \<Rightarrow> None
                    | JBool b \<Rightarrow> None
                    | JNum q \<Rightarrow> None
                    | JStr t \<Rightarrow> None
                    | JObj kvs \<Rightarrow> None)
              else Some (arrayFromSet sameValueZero [])))"

text \<open>
  \<open>fileToBase64\<close>: the promise rejects with the reader's error event, which is no
  \<open>Error\<close> instance; otherwise it resolves with \<open>result.split(",")[1]\<close>, which is
  undefined (\<open>None\<close>) when the text has no comma.
\<close>

definition splitComma1 :: "string \<Rightarrow> string option" where
  "splitComma1 s =
     (case dropWhile (\<lambda>c. c \<noteq> CHR '','') s of
        [] \<Rightarrow> None
      | comma # rest \<Rightarrow> Some (takeWhile (\<lambda>c. c \<noteq> CHR '','') rest))"

definition fileToBase64 :: "media_file \<Rightarrow> thrown + string option" where
  "fileToBase64 f =
     (case data_url f of None \<Rightarrow> Inl NonError | Some result \<Rightarrow> Inr (splitComma1 result))"

text \<open>
  \<open>s.replace(/p/g, "")\<close> for a literal pattern \<open>p\<close>: every match, found from left to
  right without overlap, is dropped. The counter is the number of characters of the
  current match still to drop.
\<close>

fun removeAll :: "nat \<Rightarrow> string \<Rightarrow> string \<Rightarrow> string" where
  "removeAll k p [] = []"
| "removeAll (Suc k) p (c # cs) = removeAll k p cs"
| "removeAll 0 p (c # cs) =
     (if p \<noteq> [] \<and> take (length p) (c # cs) = p
      then removeAll (length p - 1) p cs
      else c # removeAll 0 p cs)"

text \<open>The white space and line terminators that \<open>trim\<close> removes, among the 8-bit characters.\<close>

definition isWhiteSpace :: "char \<Rightarrow> bool" where
  "isWhiteSpace c = ((of_char c :: nat) \<in> set [9, 10, 11, 12, 13, 32, 160])"

definition trim :: "string \<Rightarrow> string" where
  "trim s = rev (dropWhile isWhiteSpace (rev (dropWhile isWhiteSpace s)))"

text \<open>\<open>resultText.replace(/```json/g, "").replace(/```/g, "").trim()\<close>\<close>

definition fence :: string where
  "fence = [CHR 0x60, CHR 0x60, CHR 0x60]"

definition stripFences :: "string \<Rightarrow> string" where
  "stripFences resultText = trim (removeAll 0 fence (removeAll 0 (fence @ ''json'') resultText))"

text \<open>
  The request sent to the model endpoint. The prompt is a fixed template around the
  query text and the language; the model keeps the two interpolated values.
\<close>

datatype part = PromptText string string | InlineData string string

record request =
  model :: string
  googleSearch :: bool
  temperature :: rat
  parts :: "part list"

text \<open>
  The provider's response: the value of its \<open>text\<close> accessor and its own data
  properties, which is what \<open>extractSources\<close> reads.
\<close>

record response =
  "text" :: "string option"
  properties :: "(string \<times> jsval) list"

text \<open>
  What the platform supplies: the configured credential, the call to the model endpoint
  (\<open>None\<close> when the promise rejects) and \<open>JSON.parse\<close> (\<open>None\<close> when it throws a
  SyntaxError).
\<close>

record platform =
  API_KEY :: "string option"
  generateContent :: "request \<Rightarrow> response option"
  JSON_parse :: "string \<Rightarrow> jsval option"

text \<open>\<open>if (base64Data && mimeType) parts.push(...)\<close>\<close>

definition inlineParts :: "string option \<Rightarrow> string option \<Rightarrow> part list" where
  "inlineParts base64Data mimeType =
     (case (base64Data, mimeType) of
        (Some d, Some m) \<Rightarrow> (if d \<noteq> [] \<and> m \<noteq> [] then [InlineData m d] else [])
      | _ \<Rightarrow> [])"

definition profileRequest :: "string \<Rightarrow> string \<Rightarrow> part list \<Rightarrow> request" where
  "profileRequest query lang inline =
     \<lparr> model = ''gemini-3-pro-preview'', googleSearch = True, temperature = 3 / 10,
       parts = PromptText query lang # inline \<rparr>"

text \<open>\<open>response.text || ""\<close>\<close>

definition textOrEmpty :: "response \<Rightarrow> string" where
  "textOrEmpty response = (case text response of None \<Rightarrow> [] | Some t \<Rightarrow> t)"

text \<open>
  The \<open>try\<close> block of \<open>analyzeProductProfile\<close>; \<open>None\<close> when anything in it throws.
  \<open>data.profile\<close> is read last, in the \<open>return\<close>.
\<close>

definition tryProfile :: "platform \<Rightarrow> request \<Rightarrow> (jsval \<times> jsval list) option" where
  "tryProfile P req =
     (case generateContent P req of
        None \<Rightarrow> None
      | Some response \<Rightarrow>
          (let resultText = stripFences (textOrEmpty response)
           in (case JSON_parse P resultText of
                 None \<Rightarrow> None
               | Some data \<Rightarrow>
                   (case extractSources (JObj (properties response)) of
                      None \<Rightarrow> None
                    | Some srcs \<Rightarrow>
                        (case getProp data ''profile'' of
                           None \<Rightarrow> None
                         | Some profile \<Rightarrow> Some (profile, srcs))))))"

text \<open>
  \<open>if (mediaFile) { base64Data = await fileToBase64(mediaFile); mimeType = mediaFile.type }\<close>:
  the two variables afterwards (\<open>None\<close> for null or undefined), or the value the
  rejected promise throws.
\<close>

definition loadMedia :: "media_file option \<Rightarrow> thrown + (string option \<times> string option)" where
  "loadMedia mediaFile =
     (case mediaFile of
        None \<Rightarrow> Inr (None, None)
      | Some f \<Rightarrow>
          (case fileToBase64 f of
             Inl ev \<Rightarrow> Inl ev
           | Inr base64 \<Rightarrow> Inr (base64, Some (file_type f))))"

text \<open>\<open>analyzeProductProfile\<close> of the service module.\<close>

definition analyzeProductProfile_service ::
  "platform \<Rightarrow> string \<Rightarrow> media_file option \<Rightarrow> string \<Rightarrow> thrown + (jsval \<times> jsval list)" where
  "analyzeProductProfile_service P query mediaFile lang =
     (if API_KEY P = None \<or> API_KEY P = Some []
      then Inl (Error ''API Key is missing. Please check your environment configuration.'')
      else
        (case loadMedia mediaFile of
           Inl ev \<Rightarrow> Inl ev
         | Inr (base64Data, mimeType) \<Rightarrow>
             (case tryProfile P (profileRequest query lang (inlineParts base64Data mimeType)) of
                None \<Rightarrow> Inl (Error ''Failed to analyze profile.'')
              | Some r \<Rightarrow> Inr r)))"

text \<open>
  The value of \<open>chunk.web?.uri\<close> for a chunk that is neither null nor undefined, and the
  values \<open>extractSources\<close> has to collect from a chunk list.
\<close>

definition webUri :: "jsval \<Rightarrow> jsval" where
  "webUri chunk = optProp (propertyOf chunk ''web'') ''uri''"

fun isText :: "jsval \<Rightarrow> bool" where
  "isText (JStr t) = True"
| "isText JUndefined = False"
| "isText JNull = False"
| "isText (JBool b) = False"
| "isText (JNum q) = False"
| "isText (JArr xs) = False"
| "isText (JObj kvs) = False"

text \<open>
  A chunk as the provider's response type declares it: an object, whose web URI is a
  text when it has one.
\<close>

definition wellFormedChunk :: "jsval \<Rightarrow> bool" where
  "wellFormedChunk chunk = (\<not> nullish chunk \<and> (isText (webUri chunk) \<or> \<not> truthy (webUri chunk)))"

definition presentUris :: "jsval \<Rightarrow> jsval list" where
  "presentUris groundingChunks =
     (case groundingChunks of
        JArr chunks \<Rightarrow> filter truthy (map webUri chunks)
      | JUndefined \<Rightarrow> []
      | JNull \<Rightarrow> []
      | JBool b \<Rightarrow> []
      | JNum q \<Rightarrow> []
      | JStr t \<Rightarrow> []
      | JObj kvs \<Rightarrow> [])"

definition wellFormedChunks :: "jsval \<Rightarrow> bool" where
  "wellFormedChunks groundingChunks =
     (case groundingChunks of
        JArr chunks \<Rightarrow> list_all wellFormedChunk chunks
      | JUndefined \<Rightarrow> True
      | JNull \<Rightarrow> True
      | JBool b \<Rightarrow> \<not> b
      | JNum q \<Rightarrow> q = 0
      | JStr t \<Rightarrow> t = []
      | JObj kvs \<Rightarrow> False)"

text \<open>Sample responses and platforms, used to run the client on concrete inputs.\<close>

definition webChunk :: "string \<Rightarrow> jsval" where
  "webChunk uri = JObj [(''web'', JObj [(''uri'', JStr uri)])]"

definition groundedResponse :: "jsval \<Rightarrow> jsval" where
  "groundedResponse groundingChunks =
     JObj [(''candidates'',
            JArr [JObj [(''groundingMetadata'', JObj [(''groundingChunks'', groundingChunks)])]])]"

text \<open>
  A platform whose endpoint answers every request with the given text and no grounding
  metadata, and whose \<open>JSON.parse\<close> is given by its values on the texts \<open>{}\<close> and
  \<open>null\<close>, the two JSON texts the samples below use.
\<close>

definition answering :: "string \<Rightarrow> platform" where
  "answering t =
     \<lparr> API_KEY = Some ''key'',
       generateContent = (\<lambda>req. Some \<lparr> text = Some t, properties = [] \<rparr>),
       JSON_parse = (\<lambda>t. if t = ''{}'' then Some (JObj [])
                         else if t = ''null'' then Some JNull else None) \<rparr>"

section \<open>The competitor comparison table\<close>

text \<open>
  A JavaScript number as the table meets it: \<open>NaN\<close>, or a finite value. \<open>Num q\<close> stands
  for the double nearest to the rational \<open>q\<close>; rounding and overflow are left out.
\<close>

datatype jsnum = NaN | Num rat

definition isDigit :: "char \<Rightarrow> bool" where
  "isDigit c = (c \<in> set ''0123456789'')"

text \<open>The character class \<open>[\d.]\<close>.\<close>

definition isDigitOrDot :: "char \<Rightarrow> bool" where
  "isDigitOrDot c = (isDigit c \<or> c = CHR ''.'')"

text \<open>\<open>str.match(/[\d.]+/)\<close>: the first longest run of digits and dots, if there is one.\<close>

definition matchDigitsDots :: "string \<Rightarrow> string option" where
  "matchDigitsDots str =
     (case dropWhile (\<lambda>c. \<not> isDigitOrDot c) str of
        [] \<Rightarrow> None
      | c # rest \<Rightarrow> Some (takeWhile isDigitOrDot (c # rest)))"

definition digitValue :: "char \<Rightarrow> nat" where
  "digitValue c = of_char c - 48"

definition digitsValue :: "string \<Rightarrow> nat" where
  "digitsValue ds = foldl (\<lambda>acc c. 10 * acc + digitValue c) 0 ds"

text \<open>
  \<open>parseFloat\<close> on a text made of digits and dots, the only texts \<open>parseValue\<close> passes
  to it. It reads the longest prefix that is a decimal literal: digits, then optionally a
  dot and further digits, with at least one digit in all. No such prefix gives \<open>NaN\<close>.
\<close>

definition parseFloat :: "string \<Rightarrow> jsnum" where
  "parseFloat s =
     (let whole = takeWhile isDigit s;
          rest = dropWhile isDigit s;
          frac = (case rest of
                    [] \<Rightarrow> []
                  | c # after \<Rightarrow> if c = CHR ''.'' then takeWhile isDigit after else [])
      in if whole = [] \<and> frac = [] then NaN
         else Num (of_nat (digitsValue whole) + of_nat (digitsValue frac) / 10 ^ length frac))"

definition parseValue :: "string option \<Rightarrow> jsnum" where
  "parseValue str =
     (case str of
        None \<Rightarrow> Num 0
      | Some t \<Rightarrow>
          if t = [] then Num 0
          else (case matchDigitsDots t of None \<Rightarrow> Num 0 | Some m \<Rightarrow> parseFloat m))"

text \<open>
  The fields of a profile or a competitor that the metrics read. Each may be absent;
  \<open>specs.energy\<close> is read although the profile's type does not declare it.
\<close>

record nutrition =
  energy :: "string option"
  sugar :: "string option"
  fat :: "string option"

record specs =
  specs_energy :: "string option"

record product =
  name :: string
  isMain :: bool
  price :: "string option"
  pricePer100g :: "string option"
  nutrition :: "nutrition option"
  specs :: "specs option"

text \<open>\<open>a || b\<close> on optional texts: \<open>a\<close> unless it is absent or empty.\<close>

definition orElse :: "string option \<Rightarrow> string option \<Rightarrow> string option" where
  "orElse a b = (case a of None \<Rightarrow> b | Some t \<Rightarrow> if t = [] then b else a)"

text \<open>
  \<open>allProducts\<close>: the profile first, marked as the main product and named by the
  section label when it has no name, then the competitors.
\<close>

definition mainProduct :: "string \<Rightarrow> product \<Rightarrow> product" where
  "mainProduct label profile =
     profile\<lparr> name := (if name profile = [] then label else name profile), isMain := True \<rparr>"

definition competitorProducts :: "product list \<Rightarrow> product list" where
  "competitorProducts competitors = map (\<lambda>c. c\<lparr> isMain := False \<rparr>) competitors"

definition allProducts :: "string \<Rightarrow> product \<Rightarrow> product list \<Rightarrow> product list" where
  "allProducts label profile competitors =
     mainProduct label profile # competitorProducts competitors"

datatype metric = Price | Energy | Sugar | Fat

fun getValue :: "metric \<Rightarrow> product \<Rightarrow> jsnum" where
  "getValue Price p = parseValue (orElse (price p) (pricePer100g p))"
| "getValue Energy p =
     parseValue (orElse (case nutrition p of None \<Rightarrow> None | Some n \<Rightarrow> energy n)
                        (case specs p of None \<Rightarrow> None | Some sp \<Rightarrow> specs_energy sp))"
| "getValue Sugar p = parseValue (case nutrition p of None \<Rightarrow> None | Some n \<Rightarrow> sugar n)"
| "getValue Fat p = parseValue (case nutrition p of None \<Rightarrow> None | Some n \<Rightarrow> fat n)"

text \<open>\<open>Math.max\<close> of two numbers: \<open>NaN\<close> as soon as one of them is.\<close>

fun max2 :: "jsnum \<Rightarrow> jsnum \<Rightarrow> jsnum" where
  "max2 (Num a) (Num b) = Num (max a b)"
| "max2 NaN y = NaN"
| "max2 (Num a) NaN = NaN"

text \<open>\<open>Math.max(v, ...vs)\<close> of at least one number.\<close>

definition mathMax :: "jsnum \<Rightarrow> jsnum list \<Rightarrow> jsnum" where
  "mathMax v vs = foldl max2 v vs"

text \<open>\<open>maxValue > 0 ? (val / maxValue) * 100 : 0\<close>; a comparison with \<open>NaN\<close> is false.\<close>

definition percent :: "jsnum \<Rightarrow> jsnum \<Rightarrow> jsnum" where
  "percent maxValue val =
     (case maxValue of
        NaN \<Rightarrow> Num 0
      | Num m \<Rightarrow>
          if m > 0 then (case val of NaN \<Rightarrow> NaN | Num v \<Rightarrow> Num (v / m * 100))
          else Num 0)"

text \<open>One row of the table: the maximum over all products, then each product's width.\<close>

definition maxValue :: "metric \<Rightarrow> string \<Rightarrow> product \<Rightarrow> product list \<Rightarrow> jsnum" where
  "maxValue m label profile competitors =
     mathMax (getValue m (mainProduct label profile))
       (map (getValue m) (competitorProducts competitors))"

definition barWidths :: "metric \<Rightarrow> string \<Rightarrow> product \<Rightarrow> product list \<Rightarrow> jsnum list" where
  "barWidths m label profile competitors =
     map (\<lambda>p. percent (maxValue m label profile competitors) (getValue m p))
       (allProducts label profile competitors)"

text \<open>Sample products, used to run the table on concrete inputs.\<close>

definition pricedProduct :: "string \<Rightarrow> string \<Rightarrow> product" where
  "pricedProduct n p =
     \<lparr> name = n, isMain = False, price = Some p, pricePer100g = None, nutrition = None,
       specs = None \<rparr>"

section \<open>Properties of the session handlers\<close>

lemma handleAnalyze_stage1_fails:
  assumes "hasInput s" and "stage1 svc s = Inl err"
  shows "handleAnalyze svc s =
           (catchBlock err (resetState s), [ProfileCall (input s) (file s) (language s)])"
  using assms by (auto simp: handleAnalyze_def hasInput_def stage1_def)

lemma handleAnalyze_stage2_fails:
  assumes "hasInput s" and "stage1 svc s = Inr (profile, srcs)"
    and "stage2 svc s profile = Inl err"
  shows "handleAnalyze svc s =
           (catchBlock err (profileDone profile srcs (resetState s)),
            [ProfileCall (input s) (file s) (language s),
             InsightsCall (input s) (file s) profile (language s)])"
  using assms by (auto simp: handleAnalyze_def hasInput_def stage1_def stage2_def)

lemma handleAnalyze_succeeds:
  assumes "hasInput s" and "stage1 svc s = Inr (profile, srcs)"
    and "stage2 svc s profile = Inr ins"
  shows "handleAnalyze svc s =
           (finallyBlock (insightsDone ins (profileDone profile srcs (resetState s))),
            [ProfileCall (input s) (file s) (language s),
             InsightsCall (input s) (file s) profile (language s)])"
  using assms by (auto simp: handleAnalyze_def hasInput_def stage1_def stage2_def)

lemma set_fromSet:
  assumes "\<And>x y. same x y \<Longrightarrow> x = y"
  shows "set (fromSet same seen xs) = set seen \<union> set xs"
proof (induction xs arbitrary: seen)
  case Nil
  show ?case by simp
next
  case (Cons x xs)
  show ?case
  proof (cases "list_ex (same x) seen")
    case True
    then obtain y where "y \<in> set seen" and "same x y"
      by (auto simp: list_ex_iff)
    then have "x \<in> set seen"
      using assms by auto
    then show ?thesis
      using True Cons.IH [of seen] by auto
  next
    case False
    then show ?thesis
      using Cons.IH [of "seen @ [x]"] by auto
  qed
qed

lemma distinct_fromSet:
  assumes "\<And>x. x \<in> set xs \<Longrightarrow> same x x" and "distinct seen"
  shows "distinct (fromSet same seen xs)"
  using assms
proof (induction xs arbitrary: seen)
  case Nil
  then show ?case by simp
next
  case (Cons x xs)
  show ?case
  proof (cases "list_ex (same x) seen")
    case True
    then show ?thesis
      using Cons by simp
  next
    case False
    have "x \<notin> set seen"
    proof
      assume "x \<in> set seen"
      moreover have "same x x" using Cons.prems(1) by simp
      ultimately show False using False by (auto simp: list_ex_iff)
    qed
    then have "distinct (seen @ [x])"
      using Cons.prems(2) by simp
    then show ?thesis
      using False Cons.IH [of "seen @ [x]"] Cons.prems(1) by simp
  qed
qed

lemma exampleSession_hasInput: "hasInput exampleSession"
  by (simp add: hasInput_def exampleSession_def)

subsection \<open>A failing first stage\<close>

text \<open>
  Claim C1. When the profile analysis of stage 1 fails, the session ends with the error
  recorded and both loading flags off (the errored state), no profile and no insights are
  set, and the log of service calls holds no call of the insights analysis.
\<close>

theorem stage1_failure_errored:
  assumes "hasInput s" and "stage1 svc s = Inl err"
  shows "error (fst (handleAnalyze svc s)) = Some (errorMessage err)
       \<and> profileData (fst (handleAnalyze svc s)) = None
       \<and> insightsData (fst (handleAnalyze svc s)) = None
       \<and> \<not> isAnalyzingProfile (fst (handleAnalyze svc s))
       \<and> \<not> isAnalyzingInsights (fst (handleAnalyze svc s))
       \<and> filter isInsightsCall (snd (handleAnalyze svc s)) = []"
  by (simp add: handleAnalyze_stage1_fails [OF assms] catchBlock_def finallyBlock_def
      resetState_def)

theorem stage1_failure_errored_witness:
  "hasInput exampleSession
   \<and> stage1 profileFails exampleSession = Inl (Error ''Failed to analyze profile.'')
   \<and> error (fst (handleAnalyze profileFails exampleSession)) = Some ''Failed to analyze profile.''
   \<and> profileData (fst (handleAnalyze profileFails exampleSession)) = None
   \<and> snd (handleAnalyze profileFails exampleSession) = [ProfileCall ''Choco Bar 50g'' None VN]"
proof -
  have f: "stage1 profileFails exampleSession = Inl (Error ''Failed to analyze profile.'')"
    by (simp add: stage1_def profileFails_def)
  have c: "snd (handleAnalyze profileFails exampleSession)
             = [ProfileCall ''Choco Bar 50g'' None VN]"
    by (simp add: handleAnalyze_def exampleSession_def initial_def profileFails_def)
  show ?thesis
    using stage1_failure_errored [OF exampleSession_hasInput f] exampleSession_hasInput f c
    by simp
qed

subsection \<open>A failing second stage\<close>

text \<open>
  Claim C2. When the insights analysis of stage 2 fails after stage 1 has succeeded, the
  session ends with the error recorded and both loading flags off, while the profile and
  the sources are those the session held right after stage 1: the profile stage 1
  returned and the sources it returned.
\<close>

theorem stage2_failure_keeps_profile:
  assumes "hasInput s" and "stage1 svc s = Inr (profile, srcs)"
    and "stage2 svc s profile = Inl err"
  shows "error (fst (handleAnalyze svc s)) = Some (errorMessage err)
       \<and> \<not> isAnalyzingProfile (fst (handleAnalyze svc s))
       \<and> \<not> isAnalyzingInsights (fst (handleAnalyze svc s))
       \<and> profileData (fst (handleAnalyze svc s)) = Some profile
       \<and> allSources (fst (handleAnalyze svc s)) = srcs
       \<and> profileData (fst (handleAnalyze svc s))
           = profileData (profileDone profile srcs (resetState s))
       \<and> allSources (fst (handleAnalyze svc s))
           = allSources (profileDone profile srcs (resetState s))
       \<and> insightsData (fst (handleAnalyze svc s)) = None"
  by (simp add: handleAnalyze_stage2_fails [OF assms] catchBlock_def finallyBlock_def
      profileDone_def resetState_def)

theorem stage2_failure_keeps_profile_witness:
  "hasInput exampleSession
   \<and> stage1 insightsFail exampleSession = Inr (''Choco Bar'', [''A'', ''B''])
   \<and> stage2 insightsFail exampleSession ''Choco Bar''
       = Inl (Error ''Failed to generate insights.'')
   \<and> error (fst (handleAnalyze insightsFail exampleSession))
       = Some ''Failed to generate insights.''
   \<and> profileData (fst (handleAnalyze insightsFail exampleSession)) = Some ''Choco Bar''
   \<and> allSources (fst (handleAnalyze insightsFail exampleSession)) = [''A'', ''B'']"
proof -
  have f: "stage1 insightsFail exampleSession = Inr (''Choco Bar'', [''A'', ''B''])"
    by (simp add: stage1_def insightsFail_def)
  have g: "stage2 insightsFail exampleSession ''Choco Bar''
             = Inl (Error ''Failed to generate insights.'')"
    by (simp add: stage2_def insightsFail_def)
  show ?thesis
    using stage2_failure_keeps_profile [OF exampleSession_hasInput f g]
      exampleSession_hasInput f g
    by simp
qed

subsection \<open>Merging the sources of the two stages\<close>

text \<open>
  Claim C3. When both stages succeed and stage 2 returns sources, the sources the
  session has accumulated are, as a set, the union of the sources of the two stages, and
  the accumulated list holds no source twice. With \<open>A, B\<close> from stage 1 and \<open>B, C\<close> from
  stage 2 it is \<open>A, B, C\<close>.
\<close>

theorem merged_sources_union:
  assumes "hasInput s" and "stage1 svc s = Inr (profile, srcs1)"
    and "stage2 svc s profile = Inr ins" and "sources ins = Some srcs2"
  shows "set (allSources (fst (handleAnalyze svc s))) = set srcs1 \<union> set srcs2
       \<and> distinct (allSources (fst (handleAnalyze svc s)))"
  using assms(4)
  by (simp add: handleAnalyze_succeeds [OF assms(1-3)] finallyBlock_def insightsDone_def
      profileDone_def resetState_def arrayFromSet_def set_fromSet distinct_fromSet Let_def)

theorem merged_sources_union_witness:
  "hasInput exampleSession
   \<and> stage1 bothSucceed exampleSession = Inr (''Choco Bar'', [''A'', ''B''])
   \<and> stage2 bothSucceed exampleSession ''Choco Bar''
       = Inr \<lparr> sources = Some [''B'', ''C''], others = () \<rparr>
   \<and> set (allSources (fst (handleAnalyze bothSucceed exampleSession))) = {''A'', ''B'', ''C''}
   \<and> distinct (allSources (fst (handleAnalyze bothSucceed exampleSession)))
   \<and> allSources (fst (handleAnalyze bothSucceed exampleSession)) = [''A'', ''B'', ''C'']"
proof -
  have f: "stage1 bothSucceed exampleSession = Inr (''Choco Bar'', [''A'', ''B''])"
    by (simp add: stage1_def bothSucceed_def)
  have g: "stage2 bothSucceed exampleSession ''Choco Bar''
             = Inr \<lparr> sources = Some [''B'', ''C''], others = () \<rparr>"
    by (simp add: stage2_def bothSucceed_def)
  have l: "allSources (fst (handleAnalyze bothSucceed exampleSession)) = [''A'', ''B'', ''C'']"
    by (simp add: handleAnalyze_def exampleSession_def initial_def bothSucceed_def
        resetState_def profileDone_def insightsDone_def finallyBlock_def arrayFromSet_def)
  show ?thesis
    using merged_sources_union [OF exampleSession_hasInput f g, of "[''B'', ''C'']"]
      exampleSession_hasInput f g l
    by auto
qed

subsection \<open>Starting without input\<close>

text \<open>
  Claim C9. With an empty input text and no media file, starting an analysis does
  nothing: no service call is issued and the session is left as it was.
\<close>

theorem start_without_input_noop:
  assumes "input s = []" and "file s = None"
  shows "handleAnalyze svc s = (s, [])"
  using assms by (simp add: handleAnalyze_def)

theorem start_without_input_noop_witness:
  "input (initial :: (string, unit) session) = []
   \<and> file (initial :: (string, unit) session) = None
   \<and> handleAnalyze bothSucceed initial = (initial, [])"
  using start_without_input_noop [of "initial :: (string, unit) session" bothSucceed]
  by (simp add: initial_def)

subsection \<open>The loading flags at the end of a sequence\<close>

text \<open>
  Claim C10. Whenever an analysis sequence that was started has ended, be it with both
  stages succeeding, with stage 1 failing or with stage 2 failing, the profile-loading
  flag and the insights-loading flag are both off.
\<close>

theorem loading_flags_off_at_end:
  assumes "hasInput s"
  shows "\<not> isAnalyzingProfile (fst (handleAnalyze svc s))
       \<and> \<not> isAnalyzingInsights (fst (handleAnalyze svc s))"
proof (cases "stage1 svc s")
  case (Inl err)
  show ?thesis
    by (simp add: handleAnalyze_stage1_fails [OF assms Inl] catchBlock_def finallyBlock_def)
next
  case (Inr r)
  obtain profile srcs where r: "r = (profile, srcs)"
    by (cases r)
  have one: "stage1 svc s = Inr (profile, srcs)"
    using Inr r by simp
  show ?thesis
  proof (cases "stage2 svc s profile")
    case (Inl err)
    show ?thesis
      by (simp add: handleAnalyze_stage2_fails [OF assms one Inl] catchBlock_def
          finallyBlock_def)
  next
    case (Inr ins)
    show ?thesis
      by (simp add: handleAnalyze_succeeds [OF assms one Inr] finallyBlock_def)
  qed
qed

theorem loading_flags_off_at_end_witness:
  "hasInput exampleSession
   \<and> \<not> isAnalyzingProfile (fst (handleAnalyze bothSucceed exampleSession))
   \<and> \<not> isAnalyzingInsights (fst (handleAnalyze bothSucceed exampleSession))"
  using loading_flags_off_at_end [OF exampleSession_hasInput, of bothSucceed]
    exampleSession_hasInput
  by simp

subsection \<open>Resetting the session\<close>

lemma handleReset_fields:
  "profileData (handleReset s) = None \<and> insightsData (handleReset s) = None
   \<and> input (handleReset s) = [] \<and> file (handleReset s) = None
   \<and> allSources (handleReset s) = []
   \<and> error (handleReset s) = error s \<and> language (handleReset s) = language s
   \<and> isAnalyzingProfile (handleReset s) = isAnalyzingProfile s
   \<and> isAnalyzingInsights (handleReset s) = isAnalyzingInsights s"
  by (simp add: handleReset_def)

lemma handleReset_isIdle: "\<not> isAnalyzingProfile s \<Longrightarrow> isIdle (handleReset s)"
  by (simp add: isIdle_def handleReset_def)

text \<open>
  Claim C5. A reset is to clear every field of the session, the last error among them.
  The handler clears the profile, the insights, the input text, the media file and the
  sources, and has no setter call for the error: in the session a failed stage 2 leaves
  behind, the error is still there after the reset.
\<close>

theorem handleReset_keeps_error:
  "error (fst (handleAnalyze insightsFail exampleSession)) = Some ''Failed to generate insights.''
   \<and> error (handleReset (fst (handleAnalyze insightsFail exampleSession)))
       = Some ''Failed to generate insights.''"
  by (simp add: handleReset_def handleAnalyze_def exampleSession_def initial_def insightsFail_def
      catchBlock_def finallyBlock_def profileDone_def resetState_def)

section \<open>Properties of the analysis client\<close>

subsection \<open>Source extraction\<close>

lemma sameValueZero_eq: "sameValueZero x y \<Longrightarrow> x = y"
  by (cases x; cases y) auto

lemma sameValueZero_text: "isText x \<Longrightarrow> sameValueZero x x"
  by (cases x) auto

lemma collectUris_wellformed:
  "list_all (\<lambda>c. \<not> nullish c) chunks \<Longrightarrow>
     collectUris srcs chunks = Some (srcs @ filter truthy (map webUri chunks))"
  by (induction chunks arbitrary: srcs) (auto simp: getProp_def webUri_def)

lemma extractSources_absent:
  assumes "\<not> nullish response"
    and "\<not> truthy (groundingChunksOf (propertyOf response ''candidates''))"
  shows "extractSources response = Some []"
  using assms by (simp add: extractSources_def getProp_def arrayFromSet_def)

lemma extractSources_array:
  assumes "\<not> nullish response"
    and "groundingChunksOf (propertyOf response ''candidates'') = JArr chunks"
    and "list_all (\<lambda>c. \<not> nullish c) chunks"
  shows "extractSources response
           = Some (arrayFromSet sameValueZero (filter truthy (map webUri chunks)))"
  using assms by (simp add: extractSources_def getProp_def collectUris_wellformed)

lemma extractSources_no_metadata: "extractSources (JObj []) = Some []"
  by (simp add: extractSources_def getProp_def groundingChunksOf_def optProp_def optIndex0_def
      arrayFromSet_def)

lemma extractSources_throws_on_text_chunks:
  "extractSources (groundedResponse (JStr ''none'')) = None"
  by (simp add: groundedResponse_def extractSources_def groundingChunksOf_def optProp_def
      optIndex0_def getProp_def)

text \<open>
  Claim C8, as stated, fails: a chunk list that holds a null chunk makes the helper throw,
  since \<open>chunk.web\<close> is read without a guard.
\<close>

theorem extractSources_throws_on_null_chunk:
  "extractSources (groundedResponse (JArr [JNull])) = None"
  by (simp add: groundedResponse_def extractSources_def groundingChunksOf_def optProp_def
      optIndex0_def getProp_def)

text \<open>
  Claim C8, amended. For a response object whose grounding chunk list is absent (a link
  of the optional chain is null, undefined or otherwise falsy) or is an array of chunks
  of the declared shape, the helper does not throw: it returns the web URIs that are
  present, each once. With the list absent the result is empty.
\<close>

theorem extractSources_wellformed:
  assumes "\<not> nullish response"
    and "wellFormedChunks (groundingChunksOf (propertyOf response ''candidates''))"
  shows "\<exists>srcs. extractSources response = Some srcs
           \<and> distinct srcs
           \<and> set srcs = set (presentUris (groundingChunksOf (propertyOf response ''candidates'')))"
proof (cases "groundingChunksOf (propertyOf response ''candidates'')")
  case (JArr chunks)
  have wf: "list_all wellFormedChunk chunks"
    using assms(2) JArr by (simp add: wellFormedChunks_def)
  then have nn: "list_all (\<lambda>c. \<not> nullish c) chunks"
    by (simp add: list_all_iff wellFormedChunk_def)
  let ?uris = "filter truthy (map webUri chunks)"
  have res: "extractSources response = Some (arrayFromSet sameValueZero ?uris)"
    by (rule extractSources_array [OF assms(1) JArr nn])
  have same: "\<And>u. u \<in> set ?uris \<Longrightarrow> sameValueZero u u"
    using wf by (auto simp: list_all_iff wellFormedChunk_def intro: sameValueZero_text)
  have d: "distinct (arrayFromSet sameValueZero ?uris)"
    unfolding arrayFromSet_def by (rule distinct_fromSet [OF same]) simp_all
  have s: "set (arrayFromSet sameValueZero ?uris) = set ?uris"
    unfolding arrayFromSet_def using set_fromSet [of sameValueZero "[]" ?uris]
    by (simp add: sameValueZero_eq)
  show ?thesis
    using res d s JArr by (simp add: presentUris_def)
qed (use assms in \<open>simp_all add: extractSources_absent presentUris_def wellFormedChunks_def\<close>)

theorem extractSources_wellformed_witness:
  "\<not> nullish (groundedResponse (JArr [webChunk ''A'', JObj [], webChunk ''B'', webChunk ''A'']))
   \<and> wellFormedChunks (groundingChunksOf (propertyOf
        (groundedResponse (JArr [webChunk ''A'', JObj [], webChunk ''B'', webChunk ''A'']))
        ''candidates''))
   \<and> extractSources
        (groundedResponse (JArr [webChunk ''A'', JObj [], webChunk ''B'', webChunk ''A'']))
       = Some [JStr ''A'', JStr ''B'']"
proof -
  let ?r = "groundedResponse (JArr [webChunk ''A'', JObj [], webChunk ''B'', webChunk ''A''])"
  have n: "\<not> nullish ?r"
    by (simp add: groundedResponse_def)
  have w: "wellFormedChunks (groundingChunksOf (propertyOf ?r ''candidates''))"
    by (simp add: groundedResponse_def groundingChunksOf_def optProp_def optIndex0_def
        wellFormedChunks_def wellFormedChunk_def webChunk_def webUri_def)
  have e: "extractSources ?r = Some [JStr ''A'', JStr ''B'']"
    by (simp add: groundedResponse_def extractSources_def groundingChunksOf_def optProp_def
        optIndex0_def getProp_def webChunk_def arrayFromSet_def)
  show ?thesis
    using extractSources_wellformed [OF n w] n w e by simp
qed

subsection \<open>The failures of the profile analysis\<close>

lemma tryProfile_fails_iff:
  "(tryProfile P req = None)
     = (generateContent P req = None
        \<or> (\<exists>r. generateContent P req = Some r
                \<and> JSON_parse P (stripFences (textOrEmpty r)) = None)
        \<or> (\<exists>r data. generateContent P req = Some r
                \<and> JSON_parse P (stripFences (textOrEmpty r)) = Some data \<and> nullish data)
        \<or> (\<exists>r. generateContent P req = Some r
                \<and> extractSources (JObj (properties r)) = None))"
  by (auto simp: tryProfile_def getProp_def split: option.splits)

lemma tryProfile_without_profile_key:
  assumes "generateContent P req = Some r"
    and "JSON_parse P (stripFences (textOrEmpty r)) = Some (JObj kvs)"
    and "map_of kvs ''profile'' = None"
    and "extractSources (JObj (properties r)) = Some srcs"
  shows "tryProfile P req = Some (JUndefined, srcs)"
  using assms by (simp add: tryProfile_def getProp_def)

lemma stripFences_samples:
  "stripFences ''{}'' = ''{}''" "stripFences ''null'' = ''null''"
  by (simp_all add: stripFences_def fence_def trim_def isWhiteSpace_def)

lemma stripFences_fenced:
  "stripFences (fence @ ''json'' @ [CHR 0x0A] @ ''{}'' @ [CHR 0x0A] @ fence) = ''{}''"
  by (simp add: stripFences_def fence_def trim_def isWhiteSpace_def)

lemma analyzeProfile_without_key:
  "API_KEY P = None \<or> API_KEY P = Some [] \<Longrightarrow>
     analyzeProductProfile_service P query mediaFile lang
       = Inl (Error ''API Key is missing. Please check your environment configuration.'')"
  by (simp add: analyzeProductProfile_service_def)

lemma analyzeProfile_unreadable_media:
  assumes "API_KEY P = Some k" and "k \<noteq> []" and "data_url f = None"
  shows "analyzeProductProfile_service P query (Some f) lang = Inl NonError"
  using assms by (simp add: analyzeProductProfile_service_def loadMedia_def fileToBase64_def)

text \<open>
  Claim C4, as stated, fails in its third case: a response whose JSON text is an object
  without the key \<open>profile\<close> does not make the analysis fail. It resolves, with an
  undefined profile.
\<close>

theorem analyzeProfile_without_profile_key_succeeds:
  "JSON_parse (answering ''{}'') (stripFences ''{}'') = Some (JObj [])
   \<and> map_of ([] :: (string \<times> jsval) list) ''profile'' = None
   \<and> analyzeProductProfile_service (answering ''{}'') ''Choco Bar 50g'' None ''en''
       = Inr (JUndefined, [])"
  by (simp add: analyzeProductProfile_service_def answering_def loadMedia_def tryProfile_def
      textOrEmpty_def extractSources_no_metadata getProp_def stripFences_samples)

text \<open>
  Claim C4, amended. With the credential configured and the media file read, the profile
  analysis fails with the error \<open>Failed to analyze profile.\<close> in exactly these cases: the
  call to the endpoint fails, the response text is no valid JSON once the code fences
  are stripped, the parsed JSON value is null, or the extraction of the sources throws.
  When the parsed JSON is an object without the key \<open>profile\<close> and the sources are
  extracted, the analysis resolves, with an undefined profile.
\<close>

theorem analyzeProfile_failure_cases:
  assumes "API_KEY P = Some k" and "k \<noteq> []"
    and "loadMedia mediaFile = Inr (base64Data, mimeType)"
    and "req = profileRequest query lang (inlineParts base64Data mimeType)"
  shows "((analyzeProductProfile_service P query mediaFile lang
            = Inl (Error ''Failed to analyze profile.''))
          = (generateContent P req = None
             \<or> (\<exists>r. generateContent P req = Some r
                     \<and> JSON_parse P (stripFences (textOrEmpty r)) = None)
             \<or> (\<exists>r data. generateContent P req = Some r
                     \<and> JSON_parse P (stripFences (textOrEmpty r)) = Some data \<and> nullish data)
             \<or> (\<exists>r. generateContent P req = Some r
                     \<and> extractSources (JObj (properties r)) = None)))
       \<and> (\<forall>r kvs srcs.
             generateContent P req = Some r
             \<and> JSON_parse P (stripFences (textOrEmpty r)) = Some (JObj kvs)
             \<and> map_of kvs ''profile'' = None
             \<and> extractSources (JObj (properties r)) = Some srcs
             \<longrightarrow> analyzeProductProfile_service P query mediaFile lang = Inr (JUndefined, srcs))"
proof -
  have run: "analyzeProductProfile_service P query mediaFile lang
               = (case tryProfile P req of
                    None \<Rightarrow> Inl (Error ''Failed to analyze profile.'')
                  | Some res \<Rightarrow> Inr res)"
    using assms by (simp add: analyzeProductProfile_service_def)
  have "(analyzeProductProfile_service P query mediaFile lang
           = Inl (Error ''Failed to analyze profile.'')) = (tryProfile P req = None)"
    unfolding run by (cases "tryProfile P req") simp_all
  then have first: "(analyzeProductProfile_service P query mediaFile lang
           = Inl (Error ''Failed to analyze profile.''))
          = (generateContent P req = None
             \<or> (\<exists>r. generateContent P req = Some r
                     \<and> JSON_parse P (stripFences (textOrEmpty r)) = None)
             \<or> (\<exists>r data. generateContent P req = Some r
                     \<and> JSON_parse P (stripFences (textOrEmpty r)) = Some data \<and> nullish data)
             \<or> (\<exists>r. generateContent P req = Some r
                     \<and> extractSources (JObj (properties r)) = None))"
    by (simp only: tryProfile_fails_iff)
  have second: "\<forall>r kvs srcs.
             generateContent P req = Some r
             \<and> JSON_parse P (stripFences (textOrEmpty r)) = Some (JObj kvs)
             \<and> map_of kvs ''profile'' = None
             \<and> extractSources (JObj (properties r)) = Some srcs
             \<longrightarrow> analyzeProductProfile_service P query mediaFile lang = Inr (JUndefined, srcs)"
    unfolding run by (auto simp: tryProfile_without_profile_key)
  show ?thesis
    using first second by (rule conjI)
qed

theorem analyzeProfile_failure_cases_witness:
  "API_KEY (answering ''null'') = Some ''key'' \<and> ''key'' \<noteq> []
   \<and> loadMedia None = Inr (None, None)
   \<and> JSON_parse (answering ''null'') (stripFences ''null'') = Some JNull
   \<and> analyzeProductProfile_service (answering ''null'') ''Choco Bar 50g'' None ''en''
       = Inl (Error ''Failed to analyze profile.'')"
proof -
  let ?P = "answering ''null''"
  let ?req = "profileRequest ''Choco Bar 50g'' ''en'' (inlineParts None None)"
  have k: "API_KEY ?P = Some ''key''" and ne: "''key'' \<noteq> []"
    by (simp_all add: answering_def)
  have m: "loadMedia None = Inr (None, None)"
    by (simp add: loadMedia_def)
  have p: "JSON_parse ?P (stripFences ''null'') = Some JNull"
    by (simp add: answering_def stripFences_samples)
  have "\<exists>r data. generateContent ?P ?req = Some r
          \<and> JSON_parse ?P (stripFences (textOrEmpty r)) = Some data \<and> nullish data"
    by (simp add: answering_def textOrEmpty_def stripFences_samples)
  then have "analyzeProductProfile_service ?P ''Choco Bar 50g'' None ''en''
               = Inl (Error ''Failed to analyze profile.'')"
    using analyzeProfile_failure_cases [OF k ne m refl, of "''Choco Bar 50g''" "''en''"]
    by blast
  then show ?thesis
    using k ne m p by simp
qed

section \<open>Properties of the competitor comparison table\<close>

subsection \<open>Parsing a value\<close>

lemma parseValue_examples:
  "parseValue (Some ''12.50 USD'') = Num (25 / 2)"
  "parseValue (Some ''N/A'') = Num 0"
  "parseValue (Some []) = Num 0"
  "parseValue None = Num 0"
  by (simp_all add: parseValue_def matchDigitsDots_def isDigitOrDot_def isDigit_def
      parseFloat_def digitsValue_def digitValue_def)

lemma parseValue_no_digit_or_dot:
  assumes "list_all (\<lambda>c. \<not> isDigitOrDot c) t"
  shows "parseValue (Some t) = Num 0"
proof -
  have "matchDigitsDots t = None"
    using assms by (induction t) (simp_all add: matchDigitsDots_def)
  then show ?thesis
    by (simp add: parseValue_def)
qed

text \<open>
  Claim C6. The helper is to yield 0 for every text that holds no number. The pattern
  also matches a run of dots, which \<open>parseFloat\<close> cannot read: on the text \<open>N.A.\<close> the
  helper yields \<open>NaN\<close>.
\<close>

theorem parseValue_lone_dot_is_NaN:
  "parseValue (Some ''N.A.'') = NaN"
  by (simp add: parseValue_def matchDigitsDots_def isDigitOrDot_def isDigit_def
      parseFloat_def digitsValue_def digitValue_def)

subsection \<open>Bar widths\<close>

lemma mathMax_numbers: "mathMax (Num v) (map Num vs) = Num (Max (set (v # vs)))"
proof (induction vs arbitrary: v)
  case Nil
  show ?case by (simp add: mathMax_def)
next
  case (Cons x xs)
  have "mathMax (Num v) (map Num (x # xs)) = mathMax (Num (max v x)) (map Num xs)"
    by (simp add: mathMax_def)
  also have "\<dots> = Num (Max (set (max v x # xs)))"
    by (rule Cons.IH)
  also have "Max (set (max v x # xs)) = Max (set (v # x # xs))"
    by (cases "xs = []") (simp_all add: max.assoc)
  finally show ?case .
qed

lemma mathMax_NaN: "NaN \<in> set (v # vs) \<Longrightarrow> mathMax v vs = NaN"
proof (induction vs arbitrary: v)
  case Nil
  then show ?case by (simp add: mathMax_def)
next
  case (Cons x xs)
  have step: "mathMax v (x # xs) = mathMax (max2 v x) xs"
    by (simp add: mathMax_def)
  have "max2 v x = NaN \<or> NaN \<in> set xs"
    using Cons.prems by (cases v; cases x) auto
  then have "NaN \<in> set (max2 v x # xs)"
    by auto
  then show ?case
    unfolding step by (rule Cons.IH)
qed

lemma percent_numbers:
  "percent (Num m) (Num v) = (if 0 < m then Num (v / m * 100) else Num 0)"
  by (simp add: percent_def)

text \<open>
  When every product's value is a number, each width is the value over the maximum, as a
  percentage, and 0 when the maximum is 0.
\<close>

lemma barWidths_numbers:
  assumes "map (getValue m) (allProducts label profile competitors) = map Num vs"
  shows "barWidths m label profile competitors
           = map (\<lambda>v. if 0 < Max (set vs) then Num (v / Max (set vs) * 100) else Num 0) vs"
proof -
  obtain w ws where vs: "vs = w # ws"
    using assms by (cases vs) (simp_all add: allProducts_def)
  have hd: "getValue m (mainProduct label profile) = Num w"
    and tl: "map (getValue m) (competitorProducts competitors) = map Num ws"
    using assms vs by (simp_all add: allProducts_def)
  have mx: "maxValue m label profile competitors = Num (Max (set vs))"
    unfolding maxValue_def hd tl vs by (rule mathMax_numbers)
  have "barWidths m label profile competitors
          = map (percent (Num (Max (set vs))))
              (map (getValue m) (allProducts label profile competitors))"
    by (simp add: barWidths_def mx comp_def)
  also have "\<dots> = map (percent (Num (Max (set vs)))) (map Num vs)"
    by (simp only: assms)
  also have "\<dots> = map (\<lambda>v. if 0 < Max (set vs) then Num (v / Max (set vs) * 100) else Num 0) vs"
    by (simp add: percent_numbers comp_def)
  finally show ?thesis .
qed

text \<open>When one product's value is \<open>NaN\<close>, every width of the row is 0.\<close>

lemma barWidths_NaN:
  assumes "NaN \<in> set (map (getValue m) (allProducts label profile competitors))"
  shows "barWidths m label profile competitors
           = map (\<lambda>p. Num 0) (allProducts label profile competitors)"
proof -
  have "maxValue m label profile competitors = NaN"
    unfolding maxValue_def using assms by (intro mathMax_NaN) (simp add: allProducts_def)
  then show ?thesis
    by (simp add: barWidths_def percent_def)
qed

lemma barWidths_example:
  "barWidths Price ''Profile'' (pricedProduct ''Choco Bar'' ''10'')
     [pricedProduct ''X'' ''N/A'', pricedProduct ''Y'' ''20''] = [Num 50, Num 0, Num 100]"
  by (simp add: barWidths_def maxValue_def allProducts_def mainProduct_def competitorProducts_def
      mathMax_def percent_def pricedProduct_def orElse_def
      parseValue_def matchDigitsDots_def isDigitOrDot_def isDigit_def
      parseFloat_def digitsValue_def digitValue_def)

lemma barWidths_all_zero:
  "barWidths Price ''Profile'' (pricedProduct ''Choco Bar'' ''N/A'')
     [pricedProduct ''X'' ''0'', pricedProduct ''Y'' ''-''] = [Num 0, Num 0, Num 0]"
  by (simp add: barWidths_def maxValue_def allProducts_def mainProduct_def competitorProducts_def
      mathMax_def percent_def pricedProduct_def orElse_def
      parseValue_def matchDigitsDots_def isDigitOrDot_def isDigit_def
      parseFloat_def digitsValue_def digitValue_def)

text \<open>
  Claim C7. Each width is to be the product's value over the maximum of all values. With
  the prices \<open>10\<close>, \<open>N.A.\<close> and \<open>20\<close> the second value is \<open>NaN\<close>, so is the maximum, the
  test \<open>maxValue > 0\<close> is false, and all three widths are 0: the products priced 10 and
  20 do not get the widths 50 and 100.
\<close>

theorem barWidths_NaN_zeroes_row:
  "maxValue Price ''Profile'' (pricedProduct ''Choco Bar'' ''10'')
     [pricedProduct ''X'' ''N.A.'', pricedProduct ''Y'' ''20''] = NaN
   \<and> barWidths Price ''Profile'' (pricedProduct ''Choco Bar'' ''10'')
     [pricedProduct ''X'' ''N.A.'', pricedProduct ''Y'' ''20''] = [Num 0, Num 0, Num 0]"
  by (simp add: barWidths_def maxValue_def allProducts_def mainProduct_def competitorProducts_def
      mathMax_def percent_def pricedProduct_def orElse_def
      parseValue_def matchDigitsDots_def isDigitOrDot_def isDigit_def
      parseFloat_def digitsValue_def digitValue_def)

end
